theory Spec2Isabelle
  imports Main
begin

section \<open>Instance relocation: the \<open>move\<close> command\<close>

text \<open>
  A shallow embedding of \<^verbatim>\<open>cmdMove.Run\<close> and \<^verbatim>\<open>cmdMove.moveInstance\<close>.
  The command chooses between an in-place rename, a server-side move and a
  client-side copy followed by a delete of the source.
\<close>

subsection \<open>Go values\<close>

text \<open>
  A Go \<^verbatim>\<open>error\<close> built by \<^verbatim>\<open>errors.New\<close> or \<^verbatim>\<open>fmt.Errorf\<close>. \<open>Errorf\<close> keeps the format
  string and the error wrapped by \<^verbatim>\<open>%w\<close>; \<open>Errorq\<close> keeps the format string and the
  string quoted by \<^verbatim>\<open>%q\<close>. The message catalogue \<^verbatim>\<open>i18n.G\<close> is the identity here.
  Errors returned by collaborators are values of the same type.
\<close>

datatype error = New string | Errorf string error | Errorq string string

text \<open>
  What a Go function of result type \<^verbatim>\<open>error\<close> does: it returns \<^verbatim>\<open>nil\<close>, returns an
  error, or panics at run time.
\<close>

datatype outcome = Success | Failure error | Panic

definition returned :: "error option \<Rightarrow> outcome" where
  "returned err = (case err of None \<Rightarrow> Success | Some e \<Rightarrow> Failure e)"

text \<open>A slice is \<^verbatim>\<open>nil\<close> (\<open>None\<close>) or holds elements; \<^verbatim>\<open>len\<close> of \<^verbatim>\<open>nil\<close> is 0.\<close>

type_synonym 'a slice = "'a list option"

definition len :: "'a slice \<Rightarrow> nat" where
  "len s = (case s of None \<Rightarrow> 0 | Some xs \<Rightarrow> length xs)"

definition elems :: "'a slice \<Rightarrow> 'a list" where
  "elems s = (case s of None \<Rightarrow> [] | Some xs \<Rightarrow> xs)"

text \<open>
  A value of type \<^verbatim>\<open>map[string]string\<close> is \<^verbatim>\<open>nil\<close> (\<open>None\<close>) or a map. Reading a key
  that a map of maps does not hold gives the zero value, the \<^verbatim>\<open>nil\<close> map.
\<close>

type_synonym strmap = "(string \<rightharpoonup> string) option"

definition index :: "(string \<rightharpoonup> strmap) \<Rightarrow> string \<Rightarrow> strmap" where
  "index m k = (case m k of None \<Rightarrow> None | Some v \<Rightarrow> v)"

text \<open>
  A map that the code only walks with \<^verbatim>\<open>range\<close> is the list of its entries in the
  order of the walk; a Go map holds every key once.

  \<^verbatim>\<open>maps.Copy(dst, src)\<close> is \<^verbatim>\<open>for k, v := range src { dst[k] = v }\<close>. A write to a \<^verbatim>\<open>nil\<close>
  map panics (\<open>None\<close>). Otherwise the result is \<open>dst\<close> after the writes.
\<close>

type_synonym entries = "(string \<times> string) list"

fun maps_Copy :: "strmap \<Rightarrow> entries \<Rightarrow> strmap option" where
  "maps_Copy dst [] = Some dst"
| "maps_Copy dst ((k, v) # rest) =
     (case dst of
        None \<Rightarrow> None
      | Some m \<Rightarrow> maps_Copy (Some (m(k \<mapsto> v))) rest)"

text \<open>
  \<^verbatim>\<open>strings.Cut(s, sep)\<close>: the text before and after the first \<open>sep\<close> in \<open>s\<close>, and
  whether \<open>sep\<close> was found; \<open>(s, "", false)\<close> when it was not.
\<close>

fun Cut :: "string \<Rightarrow> string \<Rightarrow> string \<times> string \<times> bool" where
  "Cut [] sep = ([], [], sep = [])"
| "Cut (x # xs) sep =
     (if take (length sep) (x # xs) = sep then ([], drop (length sep) (x # xs), True)
      else (case Cut xs sep of
              (before, after, found) \<Rightarrow>
                if found then (x # before, after, True) else (x # xs, [], False)))"

subsection \<open>The device override loop\<close>

text \<open>
  \<^verbatim>\<open>for devName, dev := range deviceMap { fullDev := inst.ExpandedDevices[devName];
  maps.Copy(fullDev, dev); req.Devices[devName] = fullDev }\<close>

  \<open>fullDev\<close> aliases the map stored in the instance, so the copy also
  changes \<open>expanded\<close> when that map is not \<^verbatim>\<open>nil\<close>. The result is \<open>None\<close> when
  \<^verbatim>\<open>maps.Copy\<close> panics.
\<close>

fun override_loop ::
  "(string \<times> entries) list \<Rightarrow> (string \<rightharpoonup> strmap) \<Rightarrow> (string \<rightharpoonup> strmap)
     \<Rightarrow> ((string \<rightharpoonup> strmap) \<times> (string \<rightharpoonup> strmap)) option" where
  "override_loop [] expanded devices = Some (expanded, devices)"
| "override_loop ((devName, dev) # rest) expanded devices =
     (let fullDev = index expanded devName in
      case maps_Copy fullDev dev of
        None \<Rightarrow> None
      | Some fullDev' \<Rightarrow>
          override_loop rest
            (if fullDev = None then expanded else expanded(devName \<mapsto> fullDev'))
            (devices(devName \<mapsto> fullDev')))"

subsection \<open>Commands and requests\<close>

text \<open>The flags of the \<^verbatim>\<open>move\<close> command. A string array flag that was not given is \<^verbatim>\<open>nil\<close>.\<close>

record cmdMove =
  flagNoProfiles :: bool
  flagProfile :: "string slice"
  flagConfig :: "string slice"
  flagInstanceOnly :: bool
  flagDevice :: "string slice"
  flagMode :: string
  flagStateless :: bool
  flagStorage :: string
  flagTarget :: string
  flagTargetProject :: string
  flagAllowInconsistent :: bool

text \<open>The fields of \<^verbatim>\<open>cmdCopy\<close> and \<^verbatim>\<open>cmdDelete\<close> that \<^verbatim>\<open>Run\<close> assigns.\<close>

record cmdCopy =
  copy_flagTarget :: string
  copy_flagTargetProject :: string
  copy_flagConfig :: "string slice"
  copy_flagDevice :: "string slice"
  copy_flagProfile :: "string slice"
  copy_flagNoProfiles :: bool
  copy_flagAllowInconsistent :: bool

record cmdDelete =
  flagForce :: bool
  flagForceProtected :: bool

text \<open>The fields of \<^verbatim>\<open>api.InstancePost\<close> and \<^verbatim>\<open>api.Instance\<close> that the command uses.\<close>

record InstancePost =
  Name :: string
  Migration :: bool
  InstanceOnly :: bool
  Pool :: string
  Project :: string
  Live :: bool
  Profiles :: "string slice"
  Config :: strmap
  Devices :: "(string \<rightharpoonup> strmap) option"

record Instance =
  ExpandedDevices :: "string \<rightharpoonup> strmap"

definition moveDefaultMode :: string where
  "moveDefaultMode = ''pull''"

subsection \<open>Collaborators\<close>

text \<open>
  The functions the command calls and this file does not define are parameters. The
  local ones are functions of their arguments: the argument check of the command line,
  the parser of a \<^verbatim>\<open>[<remote>:]<name>\<close> reference, the parser of the device overrides
  (it returns a map from device names to maps of keys and values), and what a server handle
  \<open>'srv\<close> says about itself. The others talk to a server: they take the state \<open>'w\<close> of
  the world outside and return the new one. \<open>'op\<close> is the handle of a server
  operation.
\<close>

record ('w, 'srv, 'op) env =
  checkArgs :: "string list \<Rightarrow> int \<Rightarrow> int \<Rightarrow> bool \<times> error option"
  ParseRemote :: "string \<Rightarrow> error + string \<times> string"
  parseDeviceOverrides :: "string slice \<Rightarrow> error + (string \<times> entries) list"
  HasExtension :: "'srv \<Rightarrow> string \<Rightarrow> bool"
  IsClustered :: "'srv \<Rightarrow> bool"
  UseTarget :: "'srv \<Rightarrow> string \<Rightarrow> 'srv"
  GetInstanceServer :: "string \<Rightarrow> 'w \<Rightarrow> (error + 'srv) \<times> 'w"
  RenameInstance :: "'srv \<Rightarrow> string \<Rightarrow> InstancePost \<Rightarrow> 'w \<Rightarrow> (error + 'op) \<times> 'w"
  Wait :: "'op \<Rightarrow> 'w \<Rightarrow> error option \<times> 'w"
  GetInstance :: "'srv \<Rightarrow> string \<Rightarrow> 'w \<Rightarrow> (error + Instance) \<times> 'w"
  MigrateInstance :: "'srv \<Rightarrow> string \<Rightarrow> InstancePost \<Rightarrow> 'w \<Rightarrow> (error + 'op) \<times> 'w"
  AddHandler :: "'op \<Rightarrow> 'w \<Rightarrow> error option \<times> 'w"
  CancelableWait :: "'op \<Rightarrow> 'w \<Rightarrow> error option \<times> 'w"
  copyInstance :: "cmdCopy \<Rightarrow> string \<Rightarrow> string \<Rightarrow> bool \<Rightarrow> int \<Rightarrow> bool \<Rightarrow> bool \<Rightarrow> string
                     \<Rightarrow> string \<Rightarrow> bool \<Rightarrow> 'w \<Rightarrow> error option \<times> 'w"
  delete_Run :: "cmdDelete \<Rightarrow> string list \<Rightarrow> 'w \<Rightarrow> error option \<times> 'w"

text \<open>
  Every call that talks to a server is logged with its arguments and the error it
  returned (\<open>None\<close> for \<^verbatim>\<open>nil\<close>).
\<close>

datatype ('srv, 'op) call =
    GetInstanceServer_call string "error option"
  | RenameInstance_call 'srv string InstancePost "error option"
  | Wait_call 'op "error option"
  | GetInstance_call 'srv string "error option"
  | MigrateInstance_call 'srv string InstancePost "error option"
  | AddHandler_call 'op "error option"
  | CancelableWait_call 'op "error option"
  | copyInstance_call cmdCopy string string bool int bool bool string string bool "error option"
  | delete_Run_call cmdDelete "string list" "error option"

definition errOf :: "error + 'a \<Rightarrow> error option" where
  "errOf r = (case r of Inl err \<Rightarrow> Some err | Inr _ \<Rightarrow> None)"

text \<open>
  The state is the world and the log. \<open>invoke\<close> runs a collaborator on the world and
  appends the call to the log.
\<close>

definition invoke ::
  "('r \<Rightarrow> 'c) \<Rightarrow> ('w \<Rightarrow> 'r \<times> 'w) \<Rightarrow> 'w \<times> 'c list \<Rightarrow> 'r \<times> 'w \<times> 'c list" where
  "invoke ev f s = (case f (fst s) of (r, w') \<Rightarrow> (r, w', snd s @ [ev r]))"

subsection \<open>\<^verbatim>\<open>moveInstance\<close>: the server-side move\<close>

text \<open>
  \<^verbatim>\<open>for _, entry := range c.flagConfig\<close>: every entry is cut at the first \<^verbatim>\<open>=\<close>; an entry
  without one ends the function with an error.
\<close>

fun config_loop :: "string list \<Rightarrow> (string \<rightharpoonup> string) \<Rightarrow> error + (string \<rightharpoonup> string)" where
  "config_loop [] config = Inr config"
| "config_loop (entry # rest) config =
     (case Cut entry ''='' of
        (key, val, found) \<Rightarrow>
          if \<not> found then Inl (Errorq ''Bad key=value pair: %q'' entry)
          else config_loop rest (config(key \<mapsto> val)))"

text \<open>The block \<^verbatim>\<open>// Override config.\<close>\<close>

definition override_config :: "cmdMove \<Rightarrow> InstancePost \<Rightarrow> error + InstancePost" where
  "override_config c req =
     (if len (flagConfig c) > 0 then
        (case config_loop (elems (flagConfig c)) Map.empty of
           Inl err \<Rightarrow> Inl err
         | Inr config \<Rightarrow> Inr (req\<lparr>Config := Some config\<rparr>))
      else Inr req)"

text \<open>
  The block \<^verbatim>\<open>// Override devices.\<close> An \<open>Inl\<close> result ends \<^verbatim>\<open>moveInstance\<close> with that
  outcome.
\<close>

definition override_devices ::
  "cmdMove \<Rightarrow> ('w, 'srv, 'op) env \<Rightarrow> 'srv \<Rightarrow> string \<Rightarrow> InstancePost
     \<Rightarrow> 'w \<times> ('srv, 'op) call list \<Rightarrow> (outcome + InstancePost) \<times> 'w \<times> ('srv, 'op) call list" where
  "override_devices c env source sourceName req s =
     (if len (flagDevice c) > 0 then
        (case parseDeviceOverrides env (flagDevice c) of
           Inl err \<Rightarrow> (Inl (Failure err), s)
         | Inr deviceMap \<Rightarrow>
             (case invoke (\<lambda>r. GetInstance_call source sourceName (errOf r))
                     (GetInstance env source sourceName) s of
                (Inl err, s) \<Rightarrow> (Inl (Failure err), s)
              | (Inr inst, s) \<Rightarrow>
                  (case override_loop deviceMap (ExpandedDevices inst) Map.empty of
                     None \<Rightarrow> (Inl Panic, s)
                   | Some (_, devices) \<Rightarrow> (Inr (req\<lparr>Devices := Some devices\<rparr>), s))))
      else (Inr req, s))"

text \<open>
  The progress renderer only prints, so \<^verbatim>\<open>progress.Done\<close> is left out.
\<close>

definition moveInstance ::
  "cmdMove \<Rightarrow> ('w, 'srv, 'op) env \<Rightarrow> string \<Rightarrow> string \<Rightarrow> bool
     \<Rightarrow> 'w \<times> ('srv, 'op) call list \<Rightarrow> outcome \<times> 'w \<times> ('srv, 'op) call list" where
  "moveInstance c env sourceResource destResource stateful s =
     (case ParseRemote env sourceResource of
        Inl err \<Rightarrow> (Failure err, s)
      | Inr (sourceRemote, sourceName) \<Rightarrow>
     (case ParseRemote env destResource of
        Inl err \<Rightarrow> (Failure err, s)
      | Inr (_, destName) \<Rightarrow>
     if sourceName = [] then (Failure (New ''You must specify a source instance name''), s)
     else
       let destName = (if destName = [] then sourceName else destName) in
       (case invoke (\<lambda>r. GetInstanceServer_call sourceRemote (errOf r))
               (GetInstanceServer env sourceRemote) s of
          (Inl err, s) \<Rightarrow> (Failure (Errorf ''Failed to connect to cluster member: %w'' err), s)
        | (Inr source, s) \<Rightarrow>
       if \<not> IsClustered env source \<and> flagTarget c \<noteq> [] then
         (Failure (New ''--target can only be used with clusters''), s)
       else
         let source = (if flagTarget c \<noteq> [] then UseTarget env source (flagTarget c) else source);
             req = \<lparr>Name = destName, Migration = True, InstanceOnly = flagInstanceOnly c,
                    Pool = flagStorage c, Project = flagTargetProject c, Live = stateful,
                    Profiles = None, Config = None, Devices = None\<rparr>;
             profiles = (if len (flagProfile c) > 0 then Some (flagProfile c)
                         else if flagNoProfiles c then Some (Some []) else None);
             req = (case profiles of None \<Rightarrow> req | Some p \<Rightarrow> req\<lparr>Profiles := p\<rparr>)
         in
         (case override_config c req of
            Inl err \<Rightarrow> (Failure err, s)
          | Inr req \<Rightarrow>
         (case override_devices c env source sourceName req s of
            (Inl out, s) \<Rightarrow> (out, s)
          | (Inr req, s) \<Rightarrow>
         (case invoke (\<lambda>r. MigrateInstance_call source sourceName req (errOf r))
                 (MigrateInstance env source sourceName req) s of
            (Inl err, s) \<Rightarrow> (Failure (Errorf ''Migration API failure: %w'' err), s)
          | (Inr op, s) \<Rightarrow>
         (case invoke (AddHandler_call op) (AddHandler env op) s of
            (Some err, s) \<Rightarrow> (Failure err, s)
          | (None, s) \<Rightarrow>
         (case invoke (CancelableWait_call op) (CancelableWait env op) s of
            (Some err, s) \<Rightarrow> (Failure (Errorf ''Migration operation failure: %w'' err), s)
          | (None, s) \<Rightarrow> (Success, s)))))))))"

subsection \<open>\<^verbatim>\<open>Run\<close>: the choice of the strategy\<close>

text \<open>The closure \<^verbatim>\<open>isServerSide\<close> of \<^verbatim>\<open>Run\<close>.\<close>

definition isServerSide ::
  "cmdMove \<Rightarrow> ('w, 'srv, 'op) env \<Rightarrow> string \<Rightarrow> string
     \<Rightarrow> 'w \<times> ('srv, 'op) call list \<Rightarrow> bool \<times> 'w \<times> ('srv, 'op) call list" where
  "isServerSide c env sourceRemote destRemote s =
     (if sourceRemote \<noteq> destRemote then (False, s)
      else if flagMode c \<noteq> moveDefaultMode then (False, s)
      else
        (case invoke (\<lambda>r. GetInstanceServer_call sourceRemote (errOf r))
                (GetInstanceServer env sourceRemote) s of
           (Inl err, s) \<Rightarrow> (False, s)
         | (Inr source, s) \<Rightarrow>
             (if \<not> HasExtension env source ''instance_move_config''
                 \<and> (len (flagConfig c) > 0 \<or> len (flagDevice c) > 0 \<or> len (flagProfile c) > 0)
              then False
              else if flagStorage c \<noteq> [] \<and> \<not> HasExtension env source ''instance_pool_move''
              then False
              else if flagTargetProject c \<noteq> []
                      \<and> \<not> HasExtension env source ''instance_project_move''
              then False
              else True, s)))"

text \<open>
  \<^verbatim>\<open>Run\<close> is written in three parts. \<open>Run_rename\<close> is the body of the branch
  \<^verbatim>\<open>if sourceRemote == destRemote && ...\<close> (the local rename), \<open>Run_copy\<close> is the end of
  the function from \<^verbatim>\<open>cpy := cmdCopy{}\<close> on (the copy and the delete of the source), and
  \<open>Run\<close> is the function from its start, calling the two where the source has them.
\<close>

definition Run_rename ::
  "cmdMove \<Rightarrow> ('w, 'srv, 'op) env \<Rightarrow> string \<Rightarrow> string \<Rightarrow> string
     \<Rightarrow> 'w \<times> ('srv, 'op) call list \<Rightarrow> outcome \<times> 'w \<times> ('srv, 'op) call list" where
  "Run_rename c env sourceRemote sourceName destName s =
     (if flagConfig c \<noteq> None \<or> flagDevice c \<noteq> None \<or> flagProfile c \<noteq> None
           \<or> flagNoProfiles c
      then (Failure (New ''Can't override configuration or profiles in local rename''), s)
      else
        (case invoke (\<lambda>r. GetInstanceServer_call sourceRemote (errOf r))
                (GetInstanceServer env sourceRemote) s of
           (Inl err, s) \<Rightarrow> (Failure err, s)
         | (Inr source, s) \<Rightarrow>
        let post = \<lparr>Name = destName, Migration = False, InstanceOnly = False, Pool = [],
                    Project = [], Live = False, Profiles = None, Config = None,
                    Devices = None\<rparr>
        in
        (case invoke (\<lambda>r. RenameInstance_call source sourceName post (errOf r))
                (RenameInstance env source sourceName post) s of
           (Inl err, s) \<Rightarrow> (Failure err, s)
         | (Inr op, s) \<Rightarrow>
        (case invoke (Wait_call op) (Wait env op) s of
           (err, s) \<Rightarrow> (returned err, s)))))"

definition Run_copy ::
  "cmdMove \<Rightarrow> ('w, 'srv, 'op) env \<Rightarrow> string list \<Rightarrow> string \<Rightarrow> string \<Rightarrow> bool \<Rightarrow> string
     \<Rightarrow> 'w \<times> ('srv, 'op) call list \<Rightarrow> outcome \<times> 'w \<times> ('srv, 'op) call list" where
  "Run_copy c env args sourceResource destResource stateful mode s =
     (let cpy = \<lparr>copy_flagTarget = flagTarget c,
                 copy_flagTargetProject = flagTargetProject c,
                 copy_flagConfig = flagConfig c,
                 copy_flagDevice = flagDevice c,
                 copy_flagProfile = flagProfile c,
                 copy_flagNoProfiles = flagNoProfiles c,
                 copy_flagAllowInconsistent = flagAllowInconsistent c\<rparr>;
          instanceOnly = flagInstanceOnly c
      in
      (case invoke (copyInstance_call cpy sourceResource destResource True (- 1) stateful
                      instanceOnly mode (flagStorage c) True)
              (copyInstance env cpy sourceResource destResource True (- 1) stateful
                 instanceOnly mode (flagStorage c) True) s of
         (Some err, s) \<Rightarrow> (Failure err, s)
       | (None, s) \<Rightarrow>
      let del = \<lparr>flagForce = True, flagForceProtected = True\<rparr> in
      (case invoke (delete_Run_call del (take 1 args)) (delete_Run env del (take 1 args)) s of
         (Some err, s) \<Rightarrow>
           (Failure (Errorf ''Failed to delete original instance after copying it: %w'' err), s)
       | (None, s) \<Rightarrow> (Success, s))))"

definition Run ::
  "cmdMove \<Rightarrow> ('w, 'srv, 'op) env \<Rightarrow> string list
     \<Rightarrow> 'w \<times> ('srv, 'op) call list \<Rightarrow> outcome \<times> 'w \<times> ('srv, 'op) call list" where
  "Run c env args s =
     (let (exit, err) =
            (if flagTarget c = [] \<and> flagTargetProject c = [] \<and> flagStorage c = []
             then checkArgs env args 2 2 else checkArgs env args 1 2)
      in
      if exit then (returned err, s)
      else
        let mode = (if flagMode c \<noteq> [] then flagMode c else moveDefaultMode) in
        (case args of
           [] \<Rightarrow> (Panic, s)
         | arg0 # _ \<Rightarrow>
        (case ParseRemote env arg0 of
           Inl err \<Rightarrow> (Failure err, s)
         | Inr (sourceRemote, sourceName) \<Rightarrow>
        (case (if length args = 2 then ParseRemote env (args ! 1) else Inr (sourceRemote, [])) of
           Inl err \<Rightarrow> (Failure err, s)
         | Inr (destRemote, destName) \<Rightarrow>
        if sourceRemote = destRemote \<and> flagTarget c = [] \<and> flagStorage c = []
             \<and> flagTargetProject c = []
        then Run_rename c env sourceRemote sourceName destName s
        else
          let sourceResource = arg0;
              destResource = (if length args = 2 then args ! 1 else sourceResource);
              stateful = (\<not> flagStateless c)
          in
          (case isServerSide c env sourceRemote destRemote s of
             (True, s) \<Rightarrow> moveInstance c env sourceResource destResource stateful s
           | (False, s) \<Rightarrow>
               Run_copy c env args sourceResource destResource stateful mode s)))))"

subsection \<open>Reading the log\<close>

fun is_copy_call :: "('srv, 'op) call \<Rightarrow> bool" where
  "is_copy_call (copyInstance_call cpy src dst kv eph st io mode pool mv r) = True"
| "is_copy_call _ = False"

fun is_delete_call :: "('srv, 'op) call \<Rightarrow> bool" where
  "is_delete_call (delete_Run_call del a r) = True"
| "is_delete_call _ = False"

fun is_migrate_call :: "('srv, 'op) call \<Rightarrow> bool" where
  "is_migrate_call (MigrateInstance_call srv n req r) = True"
| "is_migrate_call _ = False"

fun is_rename_call :: "('srv, 'op) call \<Rightarrow> bool" where
  "is_rename_call (RenameInstance_call srv n req r) = True"
| "is_rename_call _ = False"

subsection \<open>A sample installation\<close>

text \<open>
  Concrete collaborators, to run the command on concrete requests. A reference
  \<^verbatim>\<open>remote:name\<close> names the remote before the colon and a reference without a colon is
  on the default remote \<^verbatim>\<open>local\<close>. A server handle is the name of its remote, every
  server call succeeds, and the copy and the delete return what the installation is
  given.
\<close>

definition sample_checkArgs :: "string list \<Rightarrow> int \<Rightarrow> int \<Rightarrow> bool \<times> error option" where
  "sample_checkArgs args minArgs maxArgs =
     (if int (length args) < minArgs \<or> maxArgs < int (length args)
      then (True, Some (New ''Invalid number of arguments''))
      else (False, None))"

definition sample_ParseRemote :: "string \<Rightarrow> error + string \<times> string" where
  "sample_ParseRemote raw =
     (case Cut raw '':'' of
        (remote, name, found) \<Rightarrow> if found then Inr (remote, name) else Inr (''local'', raw))"

definition sample_parseDeviceOverrides :: "string slice \<Rightarrow> error + (string \<times> entries) list" where
  "sample_parseDeviceOverrides flags =
     Inr (map (\<lambda>entry. case Cut entry '','' of
                          (dev, kv, _) \<Rightarrow>
                            (case Cut kv ''='' of (k, v, _) \<Rightarrow> (dev, [(k, v)])))
            (elems flags))"

definition sample_env ::
  "string list \<Rightarrow> bool \<Rightarrow> Instance \<Rightarrow> error option \<Rightarrow> error option \<Rightarrow> (unit, string, nat) env" where
  "sample_env extensions clustered inst copyErr deleteErr =
     \<lparr>checkArgs = sample_checkArgs,
      ParseRemote = sample_ParseRemote,
      parseDeviceOverrides = sample_parseDeviceOverrides,
      HasExtension = (\<lambda>srv ext. ext \<in> set extensions),
      IsClustered = (\<lambda>srv. clustered),
      UseTarget = (\<lambda>srv target. srv @ ''@'' @ target),
      GetInstanceServer = (\<lambda>remote w. (Inr remote, w)),
      RenameInstance = (\<lambda>srv name post w. (Inr 0, w)),
      Wait = (\<lambda>op w. (None, w)),
      GetInstance = (\<lambda>srv name w. (Inr inst, w)),
      MigrateInstance = (\<lambda>srv name post w. (Inr 1, w)),
      AddHandler = (\<lambda>op w. (None, w)),
      CancelableWait = (\<lambda>op w. (None, w)),
      copyInstance = (\<lambda>cpy src dst keepVolatile ephem stateful instanceOnly mode pool move w.
                        (copyErr, w)),
      delete_Run = (\<lambda>del args w. (deleteErr, w))\<rparr>"

definition sample_instance :: Instance where
  "sample_instance =
     \<lparr>ExpandedDevices = [''eth0'' \<mapsto> Some [''type'' \<mapsto> ''nic'', ''mtu'' \<mapsto> ''1500'']]\<rparr>"

text \<open>The command with no flag given; \<^verbatim>\<open>--mode\<close> has its default.\<close>

definition plain_move :: cmdMove where
  "plain_move =
     \<lparr>flagNoProfiles = False, flagProfile = None, flagConfig = None,
      flagInstanceOnly = False, flagDevice = None, flagMode = moveDefaultMode,
      flagStateless = False, flagStorage = [], flagTarget = [], flagTargetProject = [],
      flagAllowInconsistent = False\<rparr>"

subsection \<open>Properties of the device merge\<close>

lemma maps_Copy_Some: "maps_Copy (Some m) src = Some (Some (m ++ map_of (rev src)))"
proof (induction src arbitrary: m)
  case Nil
  show ?case by simp
next
  case (Cons p src)
  obtain k v where p: "p = (k, v)" by (cases p)
  have merged: "m(k \<mapsto> v) ++ map_of (rev src) = m ++ map_of (rev (p # src))"
    unfolding p by (rule ext) (simp add: map_add_def split: option.splits)
  have "maps_Copy (Some m) (p # src) = maps_Copy (Some (m(k \<mapsto> v))) src"
    unfolding p by simp
  also have "\<dots> = Some (Some (m(k \<mapsto> v) ++ map_of (rev src)))"
    by (rule Cons.IH)
  finally show ?case
    unfolding merged .
qed

lemma maps_Copy_None: "maps_Copy None src = (if src = [] then Some None else None)"
  by (cases src) auto

lemma map_add_twice: "(m ++ src) ++ src = m ++ src"
  by (rule ext) (simp add: map_add_def split: option.splits)

lemma maps_Copy_again: "maps_Copy dst src = Some r \<Longrightarrow> maps_Copy r src = Some r"
  by (cases dst) (auto simp: maps_Copy_Some maps_Copy_None map_add_twice split: if_splits)

text \<open>
  C8. The device override merge is idempotent: copying the same override onto the
  result of a first copy gives that result again; a first copy that panics stays a
  panic.
\<close>

theorem maps_Copy_idempotent:
  "Option.bind (maps_Copy base override) (\<lambda>merged. maps_Copy merged override)
     = maps_Copy base override"
  by (cases "maps_Copy base override") (simp_all add: maps_Copy_again)

subsection \<open>What each part of the command logs\<close>

lemmas sample_defs = sample_env_def sample_checkArgs_def sample_ParseRemote_def
  sample_parseDeviceOverrides_def sample_instance_def plain_move_def moveDefaultMode_def
  invoke_def errOf_def returned_def len_def elems_def Let_def

lemma invoke_log: "invoke ev f s = (r, w', tr) \<Longrightarrow> tr = snd s @ [ev r] \<and> f (fst s) = (r, w')"
  by (auto simp: invoke_def split: prod.splits)

lemma override_devices_log:
  "override_devices c env source sourceName req (w, tr0) = (r, w', tr) \<Longrightarrow>
   \<exists>ext. tr = tr0 @ ext \<and>
     (\<forall>x\<in>set ext. \<not> is_copy_call x \<and> \<not> is_delete_call x \<and> \<not> is_migrate_call x
                      \<and> \<not> is_rename_call x)"
  by (auto simp: override_devices_def
           split: if_splits sum.splits prod.splits option.splits dest!: invoke_log)

lemma moveInstance_log:
  "moveInstance c env a b st (w, tr0) = (out, w', tr) \<Longrightarrow>
   \<exists>ext. tr = tr0 @ ext \<and>
     (\<forall>x\<in>set ext. \<not> is_copy_call x \<and> \<not> is_delete_call x \<and> \<not> is_rename_call x)"
  by (auto simp: moveInstance_def Let_def
           split: if_splits sum.splits prod.splits option.splits
           dest!: invoke_log override_devices_log)

lemma isServerSide_log:
  "isServerSide c env sr dr (w, tr0) = (b, w', tr) \<Longrightarrow>
   \<exists>ext. tr = tr0 @ ext \<and>
     (\<forall>x\<in>set ext. \<not> is_copy_call x \<and> \<not> is_delete_call x \<and> \<not> is_migrate_call x
                      \<and> \<not> is_rename_call x)"
  by (auto simp: isServerSide_def split: if_splits sum.splits prod.splits dest!: invoke_log)

lemma Run_rename_log:
  "Run_rename c env sr sn dn (w, tr0) = (out, w', tr) \<Longrightarrow>
   \<exists>ext. tr = tr0 @ ext \<and>
     (\<forall>x\<in>set ext. \<not> is_copy_call x \<and> \<not> is_delete_call x \<and> \<not> is_migrate_call x)"
  by (auto simp: Run_rename_def Let_def split: if_splits sum.splits prod.splits
           dest!: invoke_log)

lemma Run_copy_log:
  assumes "Run_copy c env args a b st m (w, tr0) = (out, w', tr)"
  defines "cc \<equiv> copyInstance_call
             \<lparr>copy_flagTarget = flagTarget c, copy_flagTargetProject = flagTargetProject c,
              copy_flagConfig = flagConfig c, copy_flagDevice = flagDevice c,
              copy_flagProfile = flagProfile c, copy_flagNoProfiles = flagNoProfiles c,
              copy_flagAllowInconsistent = flagAllowInconsistent c\<rparr>
             a b True (- 1) st (flagInstanceOnly c) m (flagStorage c) True"
      and "dc \<equiv> delete_Run_call \<lparr>flagForce = True, flagForceProtected = True\<rparr> (take 1 args)"
  shows "(\<exists>err. out = Failure err \<and> tr = tr0 @ [cc (Some err)])
       \<or> (out = Success \<and> tr = tr0 @ [cc None, dc None])
       \<or> (\<exists>err. out = Failure (Errorf ''Failed to delete original instance after copying it: %w'' err)
             \<and> tr = tr0 @ [cc None, dc (Some err)])"
  using assms(1) unfolding cc_def dc_def Run_copy_def Let_def invoke_def
  by (simp split: option.splits prod.splits) auto

text \<open>
  \<^verbatim>\<open>Run\<close> ends before any call, or in the rename, or in \<^verbatim>\<open>moveInstance\<close> when
  \<^verbatim>\<open>isServerSide\<close> is true, or in the copy and delete when it is false.
\<close>

lemma Run_cases:
  "Run c env args s = (out, s') \<Longrightarrow>
     s' = s
   \<or> (\<exists>sr sn dn. Run_rename c env sr sn dn s = (out, s'))
   \<or> (\<exists>sr dr s1 a b st. isServerSide c env sr dr s = (True, s1)
         \<and> moveInstance c env a b st s1 = (out, s'))
   \<or> (\<exists>sr dr s1 a b st m. isServerSide c env sr dr s = (False, s1)
         \<and> Run_copy c env args a b st m s1 = (out, s'))"
  unfolding Run_def Let_def
  by (auto split: if_splits sum.splits prod.splits list.splits bool.splits)

text \<open>
  The log of a run that reaches the copy: calls that are no copy and no delete, then
  the copy, then the delete when the copy returned \<^verbatim>\<open>nil\<close>.
\<close>

lemma Run_copy_shape:
  assumes run: "Run c env args (w, []) = (out, w', tr)"
      and cp: "\<exists>x\<in>set tr. is_copy_call x \<or> is_delete_call x"
  shows "\<exists>pre cpy a b st io m pool.
           (\<forall>x\<in>set pre. \<not> is_copy_call x \<and> \<not> is_delete_call x) \<and>
           ((\<exists>err. out = Failure err
                \<and> tr = pre @ [copyInstance_call cpy a b True (- 1) st io m pool True (Some err)])
          \<or> (\<exists>del da. out = Success
                \<and> tr = pre @ [copyInstance_call cpy a b True (- 1) st io m pool True None,
                              delete_Run_call del da None])
          \<or> (\<exists>del da err.
                out = Failure (Errorf ''Failed to delete original instance after copying it: %w'' err)
                \<and> tr = pre @ [copyInstance_call cpy a b True (- 1) st io m pool True None,
                              delete_Run_call del da (Some err)]))"
proof -
  from Run_cases [OF run] consider
      (early) "tr = []"
    | (rename) sr sn dn where "Run_rename c env sr sn dn (w, []) = (out, w', tr)"
    | (move) sr dr s1 a b st' where "isServerSide c env sr dr (w, []) = (True, s1)"
        "moveInstance c env a b st' s1 = (out, w', tr)"
    | (copy) sr dr s1 a b st' m where "isServerSide c env sr dr (w, []) = (False, s1)"
        "Run_copy c env args a b st' m s1 = (out, w', tr)"
    by auto
  then show ?thesis
  proof cases
    case early
    with cp show ?thesis by simp
  next
    case rename
    from Run_rename_log [OF rename] cp show ?thesis by force
  next
    case move
    obtain w1 tr1 where s1: "s1 = (w1, tr1)" by (cases s1)
    from isServerSide_log [OF move(1) [unfolded s1]] moveInstance_log [OF move(2) [unfolded s1]]
      cp
    show ?thesis by force
  next
    case copy
    obtain w1 tr1 where s1: "s1 = (w1, tr1)" by (cases s1)
    from isServerSide_log [OF copy(1) [unfolded s1]]
    have q: "\<forall>x\<in>set tr1. \<not> is_copy_call x \<and> \<not> is_delete_call x" by auto
    from Run_copy_log [OF copy(2) [unfolded s1]] q
    show ?thesis by (elim disjE exE conjE) blast+
  qed
qed

lemma Errorf_not_itself: "Errorf msg e \<noteq> e"
  by (induction e) auto

subsection \<open>The copy and the delete of the source\<close>

text \<open>
  C1. In a run of the command that calls \<^verbatim>\<open>copyInstance\<close>, the delete of the source is
  called if and only if the copy returned \<^verbatim>\<open>nil\<close>. When the copy returned an error,
  the command returns that error and the copy is the last call it makes.
\<close>

theorem Run_delete_iff_copy_success:
  assumes run: "Run c env args (w, []) = (out, w', tr)"
      and cp: "copyInstance_call cpy src dst kv eph st io mode pool mv r \<in> set tr"
  shows "((\<exists>x\<in>set tr. is_delete_call x) \<longleftrightarrow> r = None)
         \<and> (\<forall>err. r = Some err \<longrightarrow>
               out = Failure err
               \<and> last tr = copyInstance_call cpy src dst kv eph st io mode pool mv r)"
proof -
  from cp have "\<exists>x\<in>set tr. is_copy_call x \<or> is_delete_call x"
    by (rule_tac x = "copyInstance_call cpy src dst kv eph st io mode pool mv r" in bexI) simp_all
  from Run_copy_shape [OF run this] obtain pre cpy' a b st' io' m pool' where
    pre: "\<forall>x\<in>set pre. \<not> is_copy_call x \<and> \<not> is_delete_call x" and
    shape: "(\<exists>err. out = Failure err
                \<and> tr = pre @ [copyInstance_call cpy' a b True (- 1) st' io' m pool' True (Some err)])
          \<or> (\<exists>del da. out = Success
                \<and> tr = pre @ [copyInstance_call cpy' a b True (- 1) st' io' m pool' True None,
                              delete_Run_call del da None])
          \<or> (\<exists>del da err.
                out = Failure (Errorf ''Failed to delete original instance after copying it: %w'' err)
                \<and> tr = pre @ [copyInstance_call cpy' a b True (- 1) st' io' m pool' True None,
                              delete_Run_call del da (Some err)])"
    by blast
  have fresh: "copyInstance_call cpy src dst kv eph st io mode pool mv r \<notin> set pre"
  proof
    assume "copyInstance_call cpy src dst kv eph st io mode pool mv r \<in> set pre"
    with pre have "\<not> is_copy_call (copyInstance_call cpy src dst kv eph st io mode pool mv r
                      :: ('b, 'c) call)"
      by blast
    then show False by simp
  qed
  have nodel: "\<not> (\<exists>x\<in>set pre. is_delete_call x)" using pre by blast
  from shape fresh nodel cp show ?thesis
    by (elim disjE exE conjE) simp_all
qed

theorem Run_delete_iff_copy_success_witness:
  "Run plain_move (sample_env [] False sample_instance (Some (New ''copy failed'')) None)
     [''a:c1'', ''b:c1''] ((), [])
   = (Failure (New ''copy failed''), (),
      [copyInstance_call
         \<lparr>copy_flagTarget = [], copy_flagTargetProject = [], copy_flagConfig = None,
          copy_flagDevice = None, copy_flagProfile = None, copy_flagNoProfiles = False,
          copy_flagAllowInconsistent = False\<rparr>
         ''a:c1'' ''b:c1'' True (- 1) True False ''pull'' [] True (Some (New ''copy failed''))])
   \<and> \<not> (\<exists>x\<in>set [copyInstance_call
         \<lparr>copy_flagTarget = [], copy_flagTargetProject = [], copy_flagConfig = None,
          copy_flagDevice = None, copy_flagProfile = None, copy_flagNoProfiles = False,
          copy_flagAllowInconsistent = False\<rparr>
         ''a:c1'' ''b:c1'' True (- 1) True False ''pull'' [] True (Some (New ''copy failed''))
         :: (string, nat) call]. is_delete_call x)"
proof -
  have run: "Run plain_move (sample_env [] False sample_instance (Some (New ''copy failed'')) None)
     [''a:c1'', ''b:c1''] ((), [])
   = (Failure (New ''copy failed''), (),
      [copyInstance_call
         \<lparr>copy_flagTarget = [], copy_flagTargetProject = [], copy_flagConfig = None,
          copy_flagDevice = None, copy_flagProfile = None, copy_flagNoProfiles = False,
          copy_flagAllowInconsistent = False\<rparr>
         ''a:c1'' ''b:c1'' True (- 1) True False ''pull'' [] True (Some (New ''copy failed''))])"
    by (simp add: Run_def Run_copy_def isServerSide_def sample_defs)
  from Run_delete_iff_copy_success [OF run] run show ?thesis by simp
qed

text \<open>
  C2. Take a run in which the delete of the source returned an error: the copy was
  called before it, and the command returns that error wrapped by the message
  \<^verbatim>\<open>Failed to delete original instance after copying it\<close>, not the bare error and not
  success. Take a second run in which the copy failed: it returns the error of the copy
  as it is, and the two results differ when the copy did not itself return an error
  wrapped by that message.
\<close>

theorem Run_delete_failure_is_wrapped:
  assumes run: "Run c env args (w, []) = (out, w', tr)"
      and del: "delete_Run_call del da (Some err) \<in> set tr"
      and run2: "Run c2 env2 args2 (w2, []) = (out2, w2', tr2)"
      and cp2: "copyInstance_call cpy src dst kv eph st io mode pool mv (Some cerr) \<in> set tr2"
      and plain: "\<forall>e. cerr \<noteq> Errorf ''Failed to delete original instance after copying it: %w'' e"
  shows "(\<exists>x\<in>set tr. is_copy_call x)
       \<and> out = Failure (Errorf ''Failed to delete original instance after copying it: %w'' err)
       \<and> out \<noteq> Failure err \<and> out \<noteq> Success
       \<and> out2 = Failure cerr \<and> out2 \<noteq> out"
proof -
  from del have "\<exists>x\<in>set tr. is_copy_call x \<or> is_delete_call x"
    by (rule_tac x = "delete_Run_call del da (Some err)" in bexI) simp_all
  from Run_copy_shape [OF run this] obtain pre cpy' a b st' io' m pool' where
    pre: "\<forall>x\<in>set pre. \<not> is_copy_call x \<and> \<not> is_delete_call x" and
    shape: "(\<exists>err. out = Failure err
                \<and> tr = pre @ [copyInstance_call cpy' a b True (- 1) st' io' m pool' True (Some err)])
          \<or> (\<exists>del da. out = Success
                \<and> tr = pre @ [copyInstance_call cpy' a b True (- 1) st' io' m pool' True None,
                              delete_Run_call del da None])
          \<or> (\<exists>del da err.
                out = Failure (Errorf ''Failed to delete original instance after copying it: %w'' err)
                \<and> tr = pre @ [copyInstance_call cpy' a b True (- 1) st' io' m pool' True None,
                              delete_Run_call del da (Some err)])"
    by blast
  have fresh: "delete_Run_call del da (Some err) \<notin> set pre"
    using pre by auto
  from shape fresh del
  have out: "out = Failure (Errorf ''Failed to delete original instance after copying it: %w'' err)"
    and cp: "\<exists>x\<in>set tr. is_copy_call x"
    by (elim disjE exE conjE; simp)+
  from cp2 have "\<exists>x\<in>set tr2. is_copy_call x \<or> is_delete_call x"
    by (rule_tac x = "copyInstance_call cpy src dst kv eph st io mode pool mv (Some cerr)"
          in bexI) simp_all
  from Run_copy_shape [OF run2 this] obtain pre2 cpy2 a2 b2 st2 io2 m2 pool2 where
    pre2: "\<forall>x\<in>set pre2. \<not> is_copy_call x \<and> \<not> is_delete_call x" and
    shape2: "(\<exists>err. out2 = Failure err
              \<and> tr2 = pre2 @ [copyInstance_call cpy2 a2 b2 True (- 1) st2 io2 m2 pool2 True (Some err)])
        \<or> (\<exists>del da. out2 = Success
              \<and> tr2 = pre2 @ [copyInstance_call cpy2 a2 b2 True (- 1) st2 io2 m2 pool2 True None,
                            delete_Run_call del da None])
        \<or> (\<exists>del da err.
              out2 = Failure (Errorf ''Failed to delete original instance after copying it: %w'' err)
              \<and> tr2 = pre2 @ [copyInstance_call cpy2 a2 b2 True (- 1) st2 io2 m2 pool2 True None,
                            delete_Run_call del da (Some err)])"
    by blast
  have "copyInstance_call cpy src dst kv eph st io mode pool mv (Some cerr) \<notin> set pre2"
    using pre2 by auto
  with shape2 cp2 have out2: "out2 = Failure cerr"
    by (elim disjE exE conjE) simp_all
  from out cp out2 plain show ?thesis
    by (simp add: Errorf_not_itself)
qed

theorem Run_delete_failure_is_wrapped_witness:
  "Run plain_move (sample_env [] False sample_instance None (Some (New ''delete failed'')))
     [''a:c1'', ''b:c1''] ((), [])
   = (Failure (Errorf ''Failed to delete original instance after copying it: %w''
                 (New ''delete failed'')), (),
      [copyInstance_call
         \<lparr>copy_flagTarget = [], copy_flagTargetProject = [], copy_flagConfig = None,
          copy_flagDevice = None, copy_flagProfile = None, copy_flagNoProfiles = False,
          copy_flagAllowInconsistent = False\<rparr>
         ''a:c1'' ''b:c1'' True (- 1) True False ''pull'' [] True None,
       delete_Run_call \<lparr>flagForce = True, flagForceProtected = True\<rparr> [''a:c1'']
         (Some (New ''delete failed''))])
   \<and> Run plain_move (sample_env [] False sample_instance (Some (New ''copy failed'')) None)
       [''a:c1'', ''b:c1''] ((), [])
     = (Failure (New ''copy failed''), (),
        [copyInstance_call
           \<lparr>copy_flagTarget = [], copy_flagTargetProject = [], copy_flagConfig = None,
            copy_flagDevice = None, copy_flagProfile = None, copy_flagNoProfiles = False,
            copy_flagAllowInconsistent = False\<rparr>
           ''a:c1'' ''b:c1'' True (- 1) True False ''pull'' [] True
           (Some (New ''copy failed''))])
   \<and> Failure (New ''copy failed'')
       \<noteq> Failure (Errorf ''Failed to delete original instance after copying it: %w''
                     (New ''delete failed''))"
proof -
  let ?cpy = "\<lparr>copy_flagTarget = [], copy_flagTargetProject = [], copy_flagConfig = None,
          copy_flagDevice = None, copy_flagProfile = None, copy_flagNoProfiles = False,
          copy_flagAllowInconsistent = False\<rparr>"
  have run: "Run plain_move (sample_env [] False sample_instance None (Some (New ''delete failed'')))
     [''a:c1'', ''b:c1''] ((), [])
   = (Failure (Errorf ''Failed to delete original instance after copying it: %w''
                 (New ''delete failed'')), (),
      [copyInstance_call ?cpy ''a:c1'' ''b:c1'' True (- 1) True False ''pull'' [] True None,
       delete_Run_call \<lparr>flagForce = True, flagForceProtected = True\<rparr> [''a:c1'']
         (Some (New ''delete failed''))])"
    by (simp add: Run_def Run_copy_def isServerSide_def sample_defs)
  have run2: "Run plain_move (sample_env [] False sample_instance (Some (New ''copy failed'')) None)
     [''a:c1'', ''b:c1''] ((), [])
   = (Failure (New ''copy failed''), (),
      [copyInstance_call ?cpy ''a:c1'' ''b:c1'' True (- 1) True False ''pull'' [] True
         (Some (New ''copy failed''))])"
    by (simp add: Run_def Run_copy_def isServerSide_def sample_defs)
  have del: "delete_Run_call \<lparr>flagForce = True, flagForceProtected = True\<rparr> [''a:c1'']
         (Some (New ''delete failed''))
       \<in> set [copyInstance_call ?cpy ''a:c1'' ''b:c1'' True (- 1) True False ''pull'' [] True None,
              delete_Run_call \<lparr>flagForce = True, flagForceProtected = True\<rparr> [''a:c1'']
                (Some (New ''delete failed'')) :: (string, nat) call]"
    by simp
  have cp2: "copyInstance_call ?cpy ''a:c1'' ''b:c1'' True (- 1) True False ''pull'' [] True
         (Some (New ''copy failed''))
       \<in> set [copyInstance_call ?cpy ''a:c1'' ''b:c1'' True (- 1) True False ''pull'' [] True
         (Some (New ''copy failed'')) :: (string, nat) call]"
    by simp
  have plain: "\<forall>e. New ''copy failed''
                 \<noteq> Errorf ''Failed to delete original instance after copying it: %w'' e"
    by simp
  from Run_delete_failure_is_wrapped [OF run del run2 cp2 plain]
  have "Failure (New ''copy failed'')
       \<noteq> Failure (Errorf ''Failed to delete original instance after copying it: %w''
                     (New ''delete failed''))"
    by (elim conjE) assumption
  with run run2 show ?thesis by (intro conjI)
qed

subsection \<open>The server-side move\<close>

text \<open>
  C10. A server-side move of a well-formed request (both references parse, the source
  names an instance) with \<^verbatim>\<open>--target\<close> against a reachable server that is not clustered
  returns the error \<^verbatim>\<open>--target can only be used with clusters\<close>. The only call it has
  made is the connection to the server: no migration request is sent and no other
  request that changes the instance.
\<close>

theorem moveInstance_target_needs_cluster:
  assumes "ParseRemote env sourceResource = Inr (sourceRemote, sourceName)"
      and "ParseRemote env destResource = Inr (destRemote, destName)"
      and "sourceName \<noteq> []"
      and "GetInstanceServer env sourceRemote w = (Inr source, w1)"
      and "\<not> IsClustered env source"
      and "flagTarget c \<noteq> []"
  shows "moveInstance c env sourceResource destResource stateful (w, tr0)
           = (Failure (New ''--target can only be used with clusters''), w1,
              tr0 @ [GetInstanceServer_call sourceRemote None])"
  using assms by (simp add: moveInstance_def invoke_def errOf_def)

theorem moveInstance_target_needs_cluster_witness:
  "sample_ParseRemote ''c1'' = Inr (''local'', ''c1'') \<and> ''c1'' \<noteq> []
   \<and> \<not> IsClustered (sample_env [] False sample_instance None None) ''local''
   \<and> flagTarget (plain_move\<lparr>flagTarget := ''node2''\<rparr>) \<noteq> []
   \<and> moveInstance (plain_move\<lparr>flagTarget := ''node2''\<rparr>)
        (sample_env [] False sample_instance None None) ''c1'' ''c1'' True ((), [])
      = (Failure (New ''--target can only be used with clusters''), (),
         [GetInstanceServer_call ''local'' None])"
proof -
  let ?env = "sample_env [] False sample_instance None None"
  have p: "ParseRemote ?env ''c1'' = Inr (''local'', ''c1'')"
    by (simp add: sample_defs)
  have n: "''c1'' \<noteq> []" by simp
  have g: "GetInstanceServer ?env ''local'' () = (Inr ''local'', ())"
    by (simp add: sample_defs)
  have k: "\<not> IsClustered ?env ''local''" by (simp add: sample_defs)
  have t: "flagTarget (plain_move\<lparr>flagTarget := ''node2''\<rparr>) \<noteq> []" by simp
  from moveInstance_target_needs_cluster [OF p p n g k t, of True "[]"] p k
  show ?thesis by (simp add: sample_defs)
qed

text \<open>
  C6. The request \<^verbatim>\<open>move c1 --storage pool2 --device eth9,mtu=1400\<close> for an instance whose
  expanded devices hold only \<^verbatim>\<open>eth0\<close>, on a server that supports the server-side move:
  \<^verbatim>\<open>moveInstance\<close> reads the \<^verbatim>\<open>nil\<close> map for \<^verbatim>\<open>eth9\<close> and \<^verbatim>\<open>maps.Copy\<close> writes into it,
  so the command panics. It returns no error.
\<close>

theorem Run_unknown_device_panics:
  "Run (plain_move\<lparr>flagDevice := Some [''eth9,mtu=1400''], flagStorage := ''pool2''\<rparr>)
     (sample_env [''instance_move_config'', ''instance_pool_move''] False sample_instance
        None None)
     [''c1''] ((), [])
   = (Panic, (),
      [GetInstanceServer_call ''local'' None, GetInstanceServer_call ''local'' None,
       GetInstance_call ''local'' ''c1'' None])"
  by (simp add: Run_def isServerSide_def moveInstance_def override_config_def
        override_devices_def index_def sample_defs)






subsection \<open>The choice of the strategy\<close>

text \<open>
  C9. The request \<^verbatim>\<open>move c1 local:\<close> with no flag: the destination is on the remote of
  the source and its instance name is empty. The command takes the rename and sends
  the empty name as the new name; it does not put the source name in its place, as
  \<^verbatim>\<open>moveInstance\<close> does.
\<close>

theorem Run_rename_sends_empty_name:
  "Run plain_move (sample_env [] False sample_instance None None) [''c1'', ''local:''] ((), [])
   = (Success, (),
      [GetInstanceServer_call ''local'' None,
       RenameInstance_call ''local'' ''c1''
         \<lparr>Name = [], Migration = False, InstanceOnly = False, Pool = [], Project = [],
          Live = False, Profiles = None, Config = None, Devices = None\<rparr> None,
       Wait_call 0 None])"
  by (simp add: Run_def Run_rename_def sample_defs)

text \<open>
  C5. A request of two references that parse to the same remote, with no target, no
  storage pool, no target project and no override of the configuration, the devices or
  the profiles, on a remote the command can connect to: the command connects, sends
  one rename request for the source name with the destination name, and waits for the
  operation when the request was accepted. It sends no migration request, and calls
  neither the copy nor the delete.
\<close>

theorem Run_same_remote_renames:
  assumes check: "checkArgs env [src, dst] 2 2 = (False, e0)"
      and psrc: "ParseRemote env src = Inr (remote, sourceName)"
      and pdst: "ParseRemote env dst = Inr (remote, destName)"
      and noTarget: "flagTarget c = []" "flagStorage c = []" "flagTargetProject c = []"
      and noOverride: "flagConfig c = None" "flagDevice c = None" "flagProfile c = None"
                      "\<not> flagNoProfiles c"
      and conn: "GetInstanceServer env remote w = (Inr source, w1)"
      and run: "Run c env [src, dst] (w, []) = (out, w', tr)"
  shows "length (filter is_rename_call tr) = 1
       \<and> (\<exists>r. tr ! 1 = RenameInstance_call source sourceName
                          \<lparr>Name = destName, Migration = False, InstanceOnly = False,
                           Pool = [], Project = [], Live = False, Profiles = None,
                           Config = None, Devices = None\<rparr> r
              \<and> (r = None \<longrightarrow> (\<exists>op wr. tr ! 2 = Wait_call op wr \<and> out = returned wr))
              \<and> (\<forall>err. r = Some err \<longrightarrow> out = Failure err \<and> length tr = 2))
       \<and> (\<forall>x\<in>set tr. \<not> is_migrate_call x \<and> \<not> is_copy_call x \<and> \<not> is_delete_call x)"
  using assms
  by (auto simp: Run_def Run_rename_def invoke_def errOf_def Let_def
           split: prod.splits sum.splits)

theorem Run_same_remote_renames_witness:
  "Run plain_move (sample_env [] False sample_instance None None) [''c1'', ''c2''] ((), [])
   = (Success, (),
      [GetInstanceServer_call ''local'' None,
       RenameInstance_call ''local'' ''c1''
         \<lparr>Name = ''c2'', Migration = False, InstanceOnly = False, Pool = [], Project = [],
          Live = False, Profiles = None, Config = None, Devices = None\<rparr> None,
       Wait_call 0 None])
   \<and> length (filter is_rename_call
        [GetInstanceServer_call ''local'' None,
         RenameInstance_call ''local'' ''c1''
           \<lparr>Name = ''c2'', Migration = False, InstanceOnly = False, Pool = [], Project = [],
            Live = False, Profiles = None, Config = None, Devices = None\<rparr> None,
         Wait_call (0::nat) None]) = 1"
proof -
  let ?env = "sample_env [] False sample_instance None None"
  have check: "checkArgs ?env [''c1'', ''c2''] 2 2 = (False, None)"
    by (simp add: sample_defs)
  have psrc: "ParseRemote ?env ''c1'' = Inr (''local'', ''c1'')" by (simp add: sample_defs)
  have pdst: "ParseRemote ?env ''c2'' = Inr (''local'', ''c2'')" by (simp add: sample_defs)
  have conn: "GetInstanceServer ?env ''local'' () = (Inr ''local'', ())"
    by (simp add: sample_defs)
  have run: "Run plain_move ?env [''c1'', ''c2''] ((), [])
   = (Success, (),
      [GetInstanceServer_call ''local'' None,
       RenameInstance_call ''local'' ''c1''
         \<lparr>Name = ''c2'', Migration = False, InstanceOnly = False, Pool = [], Project = [],
          Live = False, Profiles = None, Config = None, Devices = None\<rparr> None,
       Wait_call 0 None])"
    by (simp add: Run_def Run_rename_def sample_defs)
  from Run_same_remote_renames [OF check psrc pdst _ _ _ _ _ _ _ conn run] run
  show ?thesis by (simp add: plain_move_def)
qed












end
